theory Spec2Isabelle
  imports Main "HOL-Library.Sublist"
begin

section \<open>The Python runtime as verify\_setup.py sees it\<close>

text \<open>
  The script touches the outside world in four ways: it reads \<open>sys.version\<close> and
  \<open>sys.version_info\<close>, it imports modules by name, it spawns child processes with
  \<open>subprocess.run\<close>, and it reads one environment variable. Everything it prints goes
  to standard output. The model takes that outside world as a record and returns, for each
  function, the events it performs together with its value or the exception it raises.
  A run asks each question once (each module is imported once, each command line is run
  once), so the answers of the outside world are functions of the question. Writing to
  standard output and reading the environment are taken never to fail.
\<close>

text \<open>
  Exception classes. \<open>ModuleNotFoundError\<close> is a subclass of \<open>ImportError\<close>;
  the other classes listed here are not, and none of them is a subclass of
  \<open>FileNotFoundError\<close> or \<open>TimeoutExpired\<close> (\<open>FileNotFoundError\<close>,
  \<open>PermissionError\<close> and \<open>NotADirectoryError\<close> are siblings below \<open>OSError\<close>).
  \<open>SystemExit\<close> carries the integer code given to \<open>sys.exit\<close>. \<open>OtherError\<close>
  stands for any other class derived from \<open>Exception\<close>. Asynchronous interrupts are
  outside the model.
\<close>

datatype exn =
    FileNotFoundError
  | TimeoutExpired
  | PermissionError
  | NotADirectoryError
  | OSError
  | ImportError
  | ModuleNotFoundError
  | SyntaxError
  | ValueError
  | SystemExit int
  | OtherError string

definition isinstance_ImportError :: "exn \<Rightarrow> bool" where
  "isinstance_ImportError e = (e = ImportError \<or> e = ModuleNotFoundError)"

text \<open>
  A child process, once started: how long it runs (\<open>None\<close> when it never ends by
  itself), after how long its two output streams are at end of file (\<open>None\<close> when
  never: a descendant that inherited them can hold them open after the child has exited),
  its exit status, and what it writes to the two streams.
\<close>

record child =
  runtime :: "nat option"
  output_closed :: "nat option"
  exit_code :: int
  wrote_stdout :: string
  wrote_stderr :: string

text \<open>
  What happens when a command line is started. When no executable of that name is found,
  the operating system reports why the search failed: no such file (\<open>ENOENT\<close>), a
  directory of the search path that cannot be read (\<open>EACCES\<close>), a path component that
  is not a directory (\<open>ENOTDIR\<close>), or a name that is too long (\<open>ENAMETOOLONG\<close>).
  Python raises the \<open>OSError\<close> subclass of that error number. A command can also be
  refused for another reason (an executable that is found but may not be run, an argument
  with an embedded null byte), or it starts.
\<close>

datatype errno = ENOENT | EACCES | ENOTDIR | ENAMETOOLONG

fun os_error :: "errno \<Rightarrow> exn" where
  "os_error ENOENT = FileNotFoundError"
| "os_error EACCES = PermissionError"
| "os_error ENOTDIR = NotADirectoryError"
| "os_error ENAMETOOLONG = OSError"

datatype launch =
    NotFound errno
  | Refused exn
  | Started child

text \<open>The \<open>CompletedProcess\<close> object that \<open>subprocess.run\<close> returns.\<close>

record completed_process =
  args :: "string list"
  returncode :: int
  stdout :: "string option"
  stderr :: "string option"

text \<open>\<open>sys.version_info\<close>, a five-element named tuple.\<close>

record version_info =
  major :: int
  minor :: int
  micro :: int
  releaselevel :: string
  serial :: int

record world =
  sys_version :: string
  sys_version_info :: version_info
  import_raises :: "string \<Rightarrow> exn option"
  launch :: "string list \<Rightarrow> launch"
  environ :: "string \<Rightarrow> string option"

text \<open>
  The observable events of a run, in order: a line printed, a module import attempted,
  a child process run with the given argument vector, \<open>capture_output\<close> flag and timeout.
\<close>

datatype event =
    Print string
  | Import string
  | Run "string list" bool nat

fun printed :: "event list \<Rightarrow> string list" where
  "printed [] = []"
| "printed (Print s # es) = s # printed es"
| "printed (Import m # es) = printed es"
| "printed (Run argv c t # es) = printed es"

text \<open>Python's \<open>needle in line\<close> for some printed line of the report.\<close>

fun report_contains :: "string list \<Rightarrow> string \<Rightarrow> bool" where
  "report_contains [] needle = False"
| "report_contains (l # ls) needle = (sublist needle l \<or> report_contains ls needle)"

text \<open>
  \<open>__import__(module)\<close>: the import either succeeds or raises whatever loading the
  module raises.
\<close>

definition dunder_import :: "world \<Rightarrow> string \<Rightarrow> event list \<times> (exn + unit)" where
  "dunder_import w m =
     ([Import m], case import_raises w m of None \<Rightarrow> Inr () | Some e \<Rightarrow> Inl e)"

text \<open>Starting the child: the exception raised, or the child that runs.\<close>

definition spawn :: "world \<Rightarrow> string list \<Rightarrow> exn + child" where
  "spawn w argv =
     (case launch w argv of
        NotFound r \<Rightarrow> Inl (os_error r)
      | Refused e \<Rightarrow> Inl e
      | Started c \<Rightarrow> Inr c)"

text \<open>An optional duration lies within a limit.\<close>

fun within :: "nat option \<Rightarrow> nat \<Rightarrow> bool" where
  "within None limit = False"
| "within (Some d) limit = (d \<le> limit)"

text \<open>
  \<open>subprocess.run(argv, capture_output=..., timeout=...)\<close>: starting the child may
  raise. Once it runs, the call waits for the child to end and, when the output is
  captured, also for end of file on both streams; when the timeout passes first the child
  is killed and \<open>TimeoutExpired\<close> is raised. Otherwise the result carries the exit
  status, and the child's output only when it was captured.
\<close>

definition subprocess_run ::
    "world \<Rightarrow> string list \<Rightarrow> bool \<Rightarrow> nat \<Rightarrow> event list \<times> (exn + completed_process)" where
  "subprocess_run w argv capture_output timeout =
     ([Run argv capture_output timeout],
      case spawn w argv of
        Inl e \<Rightarrow> Inl e
      | Inr c \<Rightarrow>
          if within (runtime c) timeout \<and>
             (if capture_output then within (output_closed c) timeout else True)
          then Inr \<lparr>args = argv, returncode = exit_code c,
                    stdout = (if capture_output then Some (wrote_stdout c) else None),
                    stderr = (if capture_output then Some (wrote_stderr c) else None)\<rparr>
          else Inl TimeoutExpired)"

text \<open>\<open>os.getenv(name)\<close>.\<close>

definition getenv :: "world \<Rightarrow> string \<Rightarrow> string option" where
  "getenv w name = environ w name"

text \<open>Truth value of an optional string: \<open>None\<close> and \<open>""\<close> are false.\<close>

fun truthy :: "string option \<Rightarrow> bool" where
  "truthy None = False"
| "truthy (Some s) = (s \<noteq> [])"

text \<open>
  \<open>sys.version_info < (a, b)\<close>: tuples compare lexicographically, and when the first two
  components agree the five-element tuple is the longer one, hence not smaller.
\<close>

definition version_info_lt :: "version_info \<Rightarrow> int \<times> int \<Rightarrow> bool" where
  "version_info_lt v t =
     (major v < fst t \<or> (major v = fst t \<and> minor v < snd t))"

text \<open>\<open>str(n)\<close> for an integer, as an f-string formats it.\<close>

definition digit :: "nat \<Rightarrow> char" where
  "digit d = ''0123456789'' ! d"

function str_nat :: "nat \<Rightarrow> string" where
  "str_nat n = (if n < 10 then [digit n] else str_nat (n div 10) @ [digit (n mod 10)])"
  by pat_completeness auto
termination
  by (relation "measure id") auto

declare str_nat.simps [simp del]

definition str_int :: "int \<Rightarrow> string" where
  "str_int i = (if i < 0 then CHR ''-'' # str_nat (nat (- i)) else str_nat (nat i))"

section \<open>The two probes\<close>

definition check_command :: "world \<Rightarrow> string \<Rightarrow> string \<Rightarrow> event list \<times> (exn + bool)" where
  "check_command w cmd name =
     (case subprocess_run w
             (if cmd \<noteq> ''checkov'' then [cmd, ''--version''] else [cmd, ''-v''])
             True 10 of
        (es, Inr result) \<Rightarrow> (es, Inr (returncode result = 0))
      | (es, Inl e) \<Rightarrow>
          if e = FileNotFoundError \<or> e = TimeoutExpired then (es, Inr False)
          else (es, Inl e))"

definition check_python_module :: "world \<Rightarrow> string \<Rightarrow> event list \<times> (exn + bool)" where
  "check_python_module w m =
     (case dunder_import w m of
        (es, Inr u) \<Rightarrow> (es, Inr True)
      | (es, Inl e) \<Rightarrow>
          if isinstance_ImportError e then (es, Inr False) else (es, Inl e))"

section \<open>The report\<close>

definition required_packages :: "(string \<times> string) list" where
  "required_packages = [(''click'', ''click''), (''rich'', ''rich'')]"

definition optional_packages :: "(string \<times> string \<times> string) list" where
  "optional_packages =
     [(''reportlab'', ''reportlab'', ''PDF report generation''),
      (''openai'', ''openai'', ''AI-powered insights'')]"

definition external_tools :: "(string \<times> string \<times> string \<times> string) list" where
  "external_tools =
     [(''trivy'', ''Trivy'', ''Vulnerability scanner'',
       ''https://trivy.dev/latest/getting-started/installation/''),
      (''checkov'', ''Checkov'', ''IaC scanner'', ''pip install checkov''),
      (''gitleaks'', ''Gitleaks'', ''Secret detection'',
       ''https://github.com/gitleaks/gitleaks#installing'')]"

text \<open>
  The three \<open>for\<close> loops of \<open>main\<close>. Each returns the events of the iterations it
  ran and, when a probe raised, the exception that ends the loop (and the run) there.
\<close>

fun required_loop :: "world \<Rightarrow> (string \<times> string) list \<Rightarrow> event list \<times> (exn + unit)" where
  "required_loop w [] = ([], Inr ())"
| "required_loop w ((package_name, import_name) # rest) =
     (case check_python_module w import_name of
        (es, Inl e) \<Rightarrow> (es, Inl e)
      | (es, Inr ok) \<Rightarrow>
          (case required_loop w rest of
             (es', r) \<Rightarrow>
               (es @
                (if ok then [Print (''  [OK] '' @ package_name @ '' installed'')]
                 else [Print (''  [MISSING] '' @ package_name @
                              '' - install with: pip install '' @ package_name)]) @
                es', r)))"

fun optional_loop ::
    "world \<Rightarrow> (string \<times> string \<times> string) list \<Rightarrow> event list \<times> (exn + unit)" where
  "optional_loop w [] = ([], Inr ())"
| "optional_loop w ((package_name, import_name, description) # rest) =
     (case check_python_module w import_name of
        (es, Inl e) \<Rightarrow> (es, Inl e)
      | (es, Inr ok) \<Rightarrow>
          (case optional_loop w rest of
             (es', r) \<Rightarrow>
               (es @
                (if ok then [Print (''  [OK] '' @ package_name @ '' - '' @ description)]
                 else [Print (''  [OPTIONAL] '' @ package_name @ '' - '' @ description),
                       Print (''             Install with: pip install '' @ package_name)]) @
                es', r)))"

fun tools_loop ::
    "world \<Rightarrow> (string \<times> string \<times> string \<times> string) list \<Rightarrow> int \<Rightarrow>
     event list \<times> (exn + int)" where
  "tools_loop w [] tools_available = ([], Inr tools_available)"
| "tools_loop w ((cmd, name, description, install_info) # rest) tools_available =
     (case check_command w cmd name of
        (es, Inl e) \<Rightarrow> (es, Inl e)
      | (es, Inr ok) \<Rightarrow>
          if ok then
            (case tools_loop w rest (tools_available + 1) of
               (es', r) \<Rightarrow>
                 (es @ [Print (''  [OK] '' @ name @ '' - '' @ description)] @ es', r))
          else
            (case tools_loop w rest tools_available of
               (es', r) \<Rightarrow>
                 (es @
                  [Print (''  [NOT INSTALLED] '' @ name @ '' - '' @ description),
                   Print (''                  Install: '' @ install_info)] @
                  es', r)))"

text \<open>
  \<open>main\<close> runs six blocks top to bottom. The first prints the banner and the
  interpreter version with its verdict (source lines 34 to 43).
\<close>

definition version_block :: "world \<Rightarrow> event list" where
  "version_block w =
     [Print (replicate 60 CHR ''=''),
      Print ''PRC Setup Verification'',
      Print (replicate 60 CHR ''=''),
      Print (CHR 0x0A # ''Python Version: '' @ sys_version w),
      (if version_info_lt (sys_version_info w) (3, 9)
       then Print ''  [WARNING] Python 3.9+ is recommended''
       else Print ''  [OK] Python version is compatible'')]"

text \<open>
  The three probing sections (lines 45 to 56, 58 to 70, 72 to 87): a header line, then
  the loop over the table. The last one yields the counter \<open>tools_available\<close>.
\<close>

definition required_section :: "world \<Rightarrow> event list \<times> (exn + unit)" where
  "required_section w =
     (case required_loop w required_packages of
        (es, r) \<Rightarrow> (Print (CHR 0x0A # ''--- Required Python Packages ---'') # es, r))"

definition optional_section :: "world \<Rightarrow> event list \<times> (exn + unit)" where
  "optional_section w =
     (case optional_loop w optional_packages of
        (es, r) \<Rightarrow> (Print (CHR 0x0A # ''--- Optional Python Packages ---'') # es, r))"

definition tools_section :: "world \<Rightarrow> event list \<times> (exn + int)" where
  "tools_section w =
     (case tools_loop w external_tools 0 of
        (es, r) \<Rightarrow> (Print (CHR 0x0A # ''--- External Scanning Tools ---'') # es, r))"

text \<open>The built-in scanner lines and the summary (lines 89 to 104).\<close>

definition summary_block :: "int \<Rightarrow> event list" where
  "summary_block tools_available =
     [Print (CHR 0x0A # ''--- Built-in Scanner ---''),
      Print ''  [ALWAYS AVAILABLE] Built-in Secret Scanner'',
      Print ''                     Detects hardcoded passwords, API keys, K8s secrets'',
      Print (CHR 0x0A # replicate 60 CHR ''=''),
      Print ''Summary'',
      Print (replicate 60 CHR ''='')] @
     (if tools_available = 0 then
        [Print (CHR 0x0A # ''[INFO] No external tools installed.''),
         Print ''       PRC will use the built-in secret scanner only.'',
         Print ''       For comprehensive scanning, install Trivy, Checkov, or Gitleaks.'']
      else
        [Print (CHR 0x0A # ''[OK] '' @ str_int tools_available @
                '' external tool(s) available + built-in scanner'')])"

text \<open>The environment variable check and the closing usage lines (lines 106 to 119).\<close>

definition environment_block :: "world \<Rightarrow> event list" where
  "environment_block w =
     [Print (CHR 0x0A # ''--- Environment Variables ---'')] @
     (if truthy (getenv w ''OPENAI_API_KEY'') then
        [Print ''  [OK] OPENAI_API_KEY is set (AI insights enabled)'']
      else
        [Print ''  [NOT SET] OPENAI_API_KEY - AI insights will use fallback mode'',
         Print ''            Set with: export OPENAI_API_KEY=your-key'']) @
     [Print (CHR 0x0A # replicate 60 CHR ''=''),
      Print ''To run a scan:'',
      Print ''  python -m src.cli.main scan /path/to/project'',
      Print (replicate 60 CHR ''='')]"

text \<open>
  \<open>main\<close> itself. The result is the trace of events, and \<open>Some e\<close> when the
  exception \<open>e\<close> left \<open>main\<close>, \<open>None\<close> when \<open>main\<close> returned. Nothing catches an
  exception that a probe lets through, so the first one ends the run where it occurs.
\<close>

definition main :: "world \<Rightarrow> event list \<times> exn option" where
  "main w =
     (case required_section w of
        (req, Inl e) \<Rightarrow> (version_block w @ req, Some e)
      | (req, Inr u) \<Rightarrow>
     (case optional_section w of
        (opt, Inl e) \<Rightarrow> (version_block w @ req @ opt, Some e)
      | (opt, Inr u') \<Rightarrow>
     (case tools_section w of
        (tls, Inl e) \<Rightarrow> (version_block w @ req @ opt @ tls, Some e)
      | (tls, Inr tools_available) \<Rightarrow>
          (version_block w @ req @ opt @ tls @
           summary_block tools_available @ environment_block w,
           None))))"

text \<open>
  The process exit status of \<open>python verify_setup.py\<close>, whose last statement is the call
  of \<open>main\<close>. When \<open>main\<close> returns, the interpreter exits with 0. When
  \<open>SystemExit\<close> leaves \<open>main\<close>, the interpreter exits with its code, of which the
  operating system keeps the low byte. When another exception leaves \<open>main\<close>, the
  interpreter prints the traceback and exits with 1. The final flush of standard output
  is taken to succeed, as every write is.
\<close>

fun status_of_exception :: "exn \<Rightarrow> int" where
  "status_of_exception (SystemExit code) = code mod 256"
| "status_of_exception e = 1"

definition exit_status :: "event list \<times> exn option \<Rightarrow> int" where
  "exit_status r = (case snd r of None \<Rightarrow> 0 | Some e \<Rightarrow> status_of_exception e)"

section \<open>Notions used to state the properties\<close>

text \<open>A probe call returns when no exception leaves it.\<close>

definition returns :: "event list \<times> (exn + 'a) \<Rightarrow> bool" where
  "returns r = (case snd r of Inl e \<Rightarrow> False | Inr v \<Rightarrow> True)"

text \<open>
  Every probe call that \<open>main\<close> makes returns: the four module probes of the two
  package tables and the three command probes of the tool table.
\<close>

definition probes_answer :: "world \<Rightarrow> bool" where
  "probes_answer w =
     (list_all (\<lambda>(package_name, import_name). returns (check_python_module w import_name))
        required_packages \<and>
      list_all (\<lambda>(package_name, import_name, description).
                  returns (check_python_module w import_name))
        optional_packages \<and>
      list_all (\<lambda>(cmd, name, description, install_info). returns (check_command w cmd name))
        external_tools)"

text \<open>The number of entries of the tool table for which \<open>check_command\<close> returns true.\<close>

definition tools_detected :: "world \<Rightarrow> int" where
  "tools_detected w =
     int (length (filter (\<lambda>(cmd, name, description, install_info).
                            snd (check_command w cmd name) = Inr True) external_tools))"

section \<open>Concrete machines\<close>

text \<open>
  A machine with Python 3.11 where every package imports, Trivy and Checkov answer their
  version flag, Gitleaks is not installed, and the API key is set.
\<close>

definition ready_world :: world where
  "ready_world =
     \<lparr>sys_version = ''3.11.4 (main, Jun  7 2023) [GCC 12.2.0]'',
      sys_version_info =
        \<lparr>major = 3, minor = 11, micro = 4, releaselevel = ''final'', serial = 0\<rparr>,
      import_raises = (\<lambda>m. None),
      launch = (\<lambda>argv.
        if argv = [''trivy'', ''--version'']
        then Started \<lparr>runtime = Some 1, output_closed = Some 1, exit_code = 0,
                      wrote_stdout = ''Version: 0.50.1'', wrote_stderr = []\<rparr>
        else if argv = [''checkov'', ''-v'']
        then Started \<lparr>runtime = Some 3, output_closed = Some 3, exit_code = 0,
                      wrote_stdout = ''3.2.0'', wrote_stderr = []\<rparr>
        else NotFound ENOENT),
      environ = (\<lambda>n. if n = ''OPENAI_API_KEY'' then Some ''sk-test'' else None)\<rparr>"

text \<open>
  A machine with Python 3.8 and nothing else: no package, no API key, Checkov and Gitleaks
  not installed, and a \<open>trivy\<close> that hangs.
\<close>

definition bare_world :: world where
  "bare_world =
     \<lparr>sys_version = ''3.8.10 (default, Nov 22 2023) [GCC 9.4.0]'',
      sys_version_info =
        \<lparr>major = 3, minor = 8, micro = 10, releaselevel = ''final'', serial = 0\<rparr>,
      import_raises = (\<lambda>m. Some ModuleNotFoundError),
      launch = (\<lambda>argv.
        if argv = [''trivy'', ''--version'']
        then Started \<lparr>runtime = None, output_closed = None, exit_code = 0,
                      wrote_stdout = [], wrote_stderr = []\<rparr>
        else NotFound ENOENT),
      environ = (\<lambda>n. None)\<rparr>"

text \<open>
  A machine with Python 3.11 on which \<open>click\<close> is installed but its source does not
  parse, so that importing it raises \<open>SyntaxError\<close>; no tool is installed and the API
  key is unset.
\<close>

definition broken_world :: world where
  "broken_world =
     \<lparr>sys_version = ''3.11.4 (main, Jun  7 2023) [GCC 12.2.0]'',
      sys_version_info =
        \<lparr>major = 3, minor = 11, micro = 4, releaselevel = ''final'', serial = 0\<rparr>,
      import_raises = (\<lambda>m. if m = ''click'' then Some SyntaxError else None),
      launch = (\<lambda>argv. NotFound ENOENT),
      environ = (\<lambda>n. None)\<rparr>"



section \<open>Auxiliary facts\<close>

lemma printed_append: "printed (xs @ ys) = printed xs @ printed ys"
  by (induction xs rule: printed.induct) simp_all

lemma report_contains_append:
  "report_contains (xs @ ys) s = (report_contains xs s \<or> report_contains ys s)"
  by (induction xs) simp_all

lemma in_printed: "l \<in> set (printed es) \<longleftrightarrow> Print l \<in> set es"
  by (induction es rule: printed.induct) auto

lemma report_contains_line:
  "l \<in> set ls \<Longrightarrow> sublist s l \<Longrightarrow> report_contains ls s"
  by (induction ls) auto

lemma returns_iff: "returns r \<longleftrightarrow> (\<exists>v. snd r = Inr v)"
  by (cases "snd r") (simp_all add: returns_def)

lemma snd_required_loop_Cons:
  "snd (required_loop w ((p, m) # rest)) =
     (case snd (check_python_module w m) of
        Inl e \<Rightarrow> Inl e | Inr ok \<Rightarrow> snd (required_loop w rest))"
  by (simp split: prod.splits sum.splits)

lemma snd_optional_loop_Cons:
  "snd (optional_loop w ((p, m, d) # rest)) =
     (case snd (check_python_module w m) of
        Inl e \<Rightarrow> Inl e | Inr ok \<Rightarrow> snd (optional_loop w rest))"
  by (simp split: prod.splits sum.splits)

lemma snd_tools_loop_Cons:
  "snd (tools_loop w ((cmd, name, d, i) # rest) n) =
     (case snd (check_command w cmd name) of
        Inl e \<Rightarrow> Inl e
      | Inr ok \<Rightarrow> snd (tools_loop w rest (if ok then n + 1 else n)))"
  by (simp split: prod.splits sum.splits)

lemma required_loop_returns:
  "returns (required_loop w ps) =
     list_all (\<lambda>(package_name, import_name). returns (check_python_module w import_name)) ps"
proof (induction ps)
  case Nil
  show ?case by (simp add: returns_def)
next
  case (Cons a ps)
  obtain p m where a: "a = (p, m)" by (cases a)
  from Cons show ?case
    unfolding a returns_def snd_required_loop_Cons by (simp split: sum.splits)
qed

lemma optional_loop_returns:
  "returns (optional_loop w ps) =
     list_all (\<lambda>(package_name, import_name, description).
                 returns (check_python_module w import_name)) ps"
proof (induction ps)
  case Nil
  show ?case by (simp add: returns_def)
next
  case (Cons a ps)
  obtain p m d where a: "a = (p, m, d)" by (cases a)
  from Cons show ?case
    unfolding a returns_def snd_optional_loop_Cons by (simp split: sum.splits)
qed

lemma tools_loop_returns:
  "returns (tools_loop w ts n) =
     list_all (\<lambda>(cmd, name, description, install_info). returns (check_command w cmd name)) ts"
proof (induction ts arbitrary: n)
  case Nil
  show ?case by (simp add: returns_def)
next
  case (Cons a ts)
  obtain c nm d i where a: "a = (c, nm, d, i)" by (cases a)
  have step: "returns (tools_loop w (a # ts) n) =
      (case snd (check_command w c nm) of
         Inl e \<Rightarrow> False
       | Inr ok \<Rightarrow> returns (tools_loop w ts (if ok then n + 1 else n)))"
    unfolding a returns_def snd_tools_loop_Cons by (simp split: sum.splits)
  show ?case
    unfolding step using Cons.IH
    by (simp add: a returns_def [of "check_command w c nm"] split: sum.splits)
qed

lemma tools_loop_count:
  "snd (tools_loop w ts n) = Inr k \<Longrightarrow>
     k = n + int (length (filter (\<lambda>(cmd, name, description, install_info).
                            snd (check_command w cmd name) = Inr True) ts))"
proof (induction ts arbitrary: n)
  case Nil
  then show ?case by simp
next
  case (Cons a ts)
  obtain c nm d i where a: "a = (c, nm, d, i)" by (cases a)
  from Cons.prems Cons.IH [of "n + 1"] Cons.IH [of n] show ?case
    unfolding a snd_tools_loop_Cons by (auto split: sum.splits if_splits)
qed

lemma required_section_snd: "snd (required_section w) = snd (required_loop w required_packages)"
  by (simp add: required_section_def split: prod.splits)

lemma optional_section_snd: "snd (optional_section w) = snd (optional_loop w optional_packages)"
  by (simp add: optional_section_def split: prod.splits)

lemma tools_section_snd: "snd (tools_section w) = snd (tools_loop w external_tools 0)"
  by (simp add: tools_section_def split: prod.splits)

lemma probes_answer_sections:
  "probes_answer w \<longleftrightarrow>
     returns (required_section w) \<and> returns (optional_section w) \<and> returns (tools_section w)"
  unfolding probes_answer_def
    required_loop_returns [symmetric] optional_loop_returns [symmetric]
    tools_loop_returns [of w external_tools 0, symmetric]
  by (simp add: returns_def required_section_snd optional_section_snd tools_section_snd)

lemma tools_section_count: "snd (tools_section w) = Inr k \<Longrightarrow> k = tools_detected w"
  using tools_loop_count [of w external_tools 0 k]
  by (simp add: tools_section_snd tools_detected_def)

lemma main_completes:
  assumes "probes_answer w"
  shows "\<exists>req opt tls.
           required_section w = (req, Inr ()) \<and> optional_section w = (opt, Inr ()) \<and>
           tools_section w = (tls, Inr (tools_detected w)) \<and>
           main w = (version_block w @ req @ opt @ tls @
                     summary_block (tools_detected w) @ environment_block w, None)"
proof -
  from assms obtain u1 u2 k where
    s: "snd (required_section w) = Inr u1" "snd (optional_section w) = Inr u2"
       "snd (tools_section w) = Inr k"
    unfolding probes_answer_sections returns_iff by blast
  from s(3) have k: "k = tools_detected w" by (rule tools_section_count)
  obtain req opt tls where
    p: "required_section w = (req, Inr ())" "optional_section w = (opt, Inr ())"
       "tools_section w = (tls, Inr (tools_detected w))"
    using s k by (cases "required_section w", cases "optional_section w", cases "tools_section w")
      auto
  have "main w = (version_block w @ req @ opt @ tls @
                     summary_block (tools_detected w) @ environment_block w, None)"
    unfolding main_def p by simp
  with p show ?thesis by blast
qed

lemma main_aborts:
  assumes "\<not> probes_answer w"
  shows "\<exists>e. snd (main w) = Some e"
proof (cases "required_section w")
  case (Pair req r1)
  show ?thesis
  proof (cases r1)
    case (Inl e)
    then show ?thesis unfolding main_def Pair by simp
  next
    case r1: (Inr u1)
    show ?thesis
    proof (cases "optional_section w")
      case opt: (Pair opt r2)
      show ?thesis
      proof (cases r2)
        case (Inl e)
        then show ?thesis unfolding main_def Pair r1 opt by simp
      next
        case r2: (Inr u2)
        show ?thesis
        proof (cases "tools_section w")
          case tls: (Pair tls r3)
          show ?thesis
          proof (cases r3)
            case (Inl e)
            then show ?thesis unfolding main_def Pair r1 opt r2 tls by simp
          next
            case (Inr k)
            with Pair r1 opt r2 tls have "probes_answer w"
              by (simp add: probes_answer_sections returns_def)
            with assms show ?thesis by simp
          qed
        qed
      qed
    qed
  qed
qed

lemma main_head: "\<exists>rest. fst (main w) = version_block w @ rest"
  unfolding main_def by (auto split: prod.splits sum.splits)

section \<open>The probes\<close>

lemma check_command_unfold:
  "check_command w cmd name =
     ([Run (if cmd = ''checkov'' then [cmd, ''-v''] else [cmd, ''--version'']) True 10],
      case spawn w (if cmd = ''checkov'' then [cmd, ''-v''] else [cmd, ''--version'']) of
        Inl e \<Rightarrow> if e = FileNotFoundError \<or> e = TimeoutExpired then Inr False else Inl e
      | Inr c \<Rightarrow>
          if within (runtime c) 10 \<and> within (output_closed c) 10
          then Inr (exit_code c = 0) else Inr False)"
  by (simp add: check_command_def subprocess_run_def split: sum.splits)





text \<open>
  Claim C2. \<open>check_command\<close> performs exactly one action: it runs the command with
  \<open>--version\<close>, or with \<open>-v\<close> when the command is \<open>checkov\<close>, capturing the output,
  with a timeout of 10. It prints nothing, and of a child that ends and closes its output
  in time only the test of its exit status against 0 reaches the caller: two machines
  whose children differ only in what they write give the same result.
\<close>

theorem check_command_invocation:
  assumes "argv = (if cmd = ''checkov'' then [cmd, ''-v''] else [cmd, ''--version''])"
  shows "(cmd \<noteq> ''checkov'' \<longrightarrow>
            fst (check_command w cmd name) = [Run [cmd, ''--version''] True 10]) \<and>
         (cmd = ''checkov'' \<longrightarrow>
            fst (check_command w cmd name) = [Run [''checkov'', ''-v''] True 10]) \<and>
         printed (fst (check_command w cmd name)) = [] \<and>
         (\<forall>c d d'. spawn w argv = Inr c \<and> runtime c = Some d \<and> d \<le> 10 \<and>
                  output_closed c = Some d' \<and> d' \<le> 10 \<longrightarrow>
            snd (check_command w cmd name) = Inr (exit_code c = 0)) \<and>
         (\<forall>c c'. spawn w argv = Inr c \<and> spawn w' argv = Inr c' \<and>
                 runtime c' = runtime c \<and> output_closed c' = output_closed c \<and>
                 exit_code c' = exit_code c \<longrightarrow>
            check_command w' cmd name = check_command w cmd name)"
  unfolding check_command_unfold assms
  by (auto split: sum.splits)

theorem check_command_invocation_witness:
  "fst (check_command ready_world ''trivy'' ''Trivy'') = [Run [''trivy'', ''--version''] True 10] \<and>
   fst (check_command ready_world ''checkov'' ''Checkov'') = [Run [''checkov'', ''-v''] True 10] \<and>
   snd (check_command ready_world ''checkov'' ''Checkov'') = Inr True"
proof -
  have a: "[''trivy'', ''--version''] =
      (if ''trivy'' = ''checkov'' then [''trivy'', ''-v''] else [''trivy'', ''--version''])"
    by simp
  have b: "[''checkov'', ''-v''] =
      (if ''checkov'' = ''checkov'' then [''checkov'', ''-v'']
       else [''checkov'', ''--version''])"
    by simp
  have c: "spawn ready_world [''checkov'', ''-v''] =
      Inr \<lparr>runtime = Some 3, output_closed = Some 3, exit_code = 0,
           wrote_stdout = ''3.2.0'', wrote_stderr = []\<rparr>"
    by (simp add: spawn_def ready_world_def)
  note t = check_command_invocation [OF a, of ready_world "''Trivy''" ready_world]
  note k = check_command_invocation [OF b, of ready_world "''Checkov''" ready_world]
  from t [THEN conjunct1]
  have 1: "fst (check_command ready_world ''trivy'' ''Trivy'') =
      [Run [''trivy'', ''--version''] True 10]"
    by simp
  from k [THEN conjunct2, THEN conjunct1]
  have 2: "fst (check_command ready_world ''checkov'' ''Checkov'') =
      [Run [''checkov'', ''-v''] True 10]"
    by simp
  from k [THEN conjunct2, THEN conjunct2, THEN conjunct2, THEN conjunct1, rule_format,
          of "\<lparr>runtime = Some 3, output_closed = Some 3, exit_code = 0,
               wrote_stdout = ''3.2.0'', wrote_stderr = []\<rparr>" 3 3]
    c
  have 3: "snd (check_command ready_world ''checkov'' ''Checkov'') = Inr True"
    by simp
  from 1 2 3 show ?thesis by simp
qed

text \<open>
  Claim C8. The result of \<open>check_command\<close> depends on its first argument only: on the
  same machine, two calls with the same \<open>cmd\<close> and different \<open>name\<close> perform the same
  action and return the same value.
\<close>

theorem check_command_ignores_name:
  "check_command w cmd name = check_command w cmd name'"
  by (simp add: check_command_def)

theorem check_command_ignores_name_witness:
  "check_command ready_world ''trivy'' ''Trivy'' = check_command ready_world ''trivy'' ''Gitleaks''"
  by (rule check_command_ignores_name)

text \<open>
  Claim C3, as amended. \<open>check_python_module\<close> attempts the import and returns true
  exactly when the module loads; it returns false exactly when loading raises
  \<open>ImportError\<close> or its subclass \<open>ModuleNotFoundError\<close>; an exception of any other
  class raised while loading leaves the probe unchanged.
\<close>

theorem check_python_module_outcomes:
  "(snd (check_python_module w m) = Inr True \<longleftrightarrow> import_raises w m = None) \<and>
   (snd (check_python_module w m) = Inr False \<longleftrightarrow>
      (\<exists>e. import_raises w m = Some e \<and> isinstance_ImportError e)) \<and>
   (snd (check_python_module w m) = Inl e \<longleftrightarrow>
      import_raises w m = Some e \<and> \<not> isinstance_ImportError e) \<and>
   fst (check_python_module w m) = [Import m]"
  by (auto simp: check_python_module_def dunder_import_def split: option.splits)

text \<open>
  The claim as first stated (false for every module that cannot be loaded, and no
  exception ever) fails on a machine where importing \<open>click\<close> raises
  \<open>SyntaxError\<close>: the module cannot be loaded, and the probe raises.
\<close>

theorem check_python_module_raises:
  "import_raises broken_world ''click'' = Some SyntaxError \<and>
   snd (check_python_module broken_world ''click'') = Inl SyntaxError"
  by (simp add: check_python_module_def dunder_import_def broken_world_def
        isinstance_ImportError_def)

theorem check_python_module_outcomes_witness:
  "snd (check_python_module ready_world ''click'') = Inr True \<and>
   snd (check_python_module bare_world ''click'') = Inr False \<and>
   snd (check_python_module broken_world ''click'') = Inl SyntaxError"
  using check_python_module_outcomes [of ready_world "''click''"]
        check_python_module_outcomes [of bare_world "''click''"]
        check_python_module_outcomes [of broken_world "''click''" SyntaxError]
  by (simp add: ready_world_def bare_world_def broken_world_def isinstance_ImportError_def)

section \<open>Facts about the concrete machines\<close>

lemma ready_world_probes: "probes_answer ready_world"
  by (simp add: probes_answer_def returns_def required_packages_def optional_packages_def
        external_tools_def check_python_module_def dunder_import_def check_command_unfold spawn_def
        ready_world_def)

lemma bare_world_probes: "probes_answer bare_world"
  by (simp add: probes_answer_def returns_def required_packages_def optional_packages_def
        external_tools_def check_python_module_def dunder_import_def check_command_unfold spawn_def
        bare_world_def isinstance_ImportError_def)

lemma ready_world_tools: "tools_detected ready_world = 2"
  by (simp add: tools_detected_def external_tools_def check_command_unfold spawn_def ready_world_def)

lemma bare_world_tools: "tools_detected bare_world = 0"
  by (simp add: tools_detected_def external_tools_def check_command_unfold spawn_def bare_world_def)

lemma str_int_2: "str_int 2 = ''2''"
  by (simp add: str_int_def str_nat.simps digit_def)

lemma main_broken_world:
  "main broken_world =
     (version_block broken_world @
      [Print (CHR 0x0A # ''--- Required Python Packages ---''), Import ''click''],
      Some SyntaxError)"
  by (simp add: main_def required_section_def required_packages_def check_python_module_def
        dunder_import_def broken_world_def isinstance_ImportError_def)

lemma printed_broken_world:
  "printed (fst (main broken_world)) =
     [replicate 60 CHR ''='', ''PRC Setup Verification'', replicate 60 CHR ''='',
      CHR 0x0A # ''Python Version: 3.11.4 (main, Jun  7 2023) [GCC 12.2.0]'',
      ''  [OK] Python version is compatible'',
      CHR 0x0A # ''--- Required Python Packages ---'']"
  unfolding main_broken_world
  by (simp add: version_block_def version_info_lt_def broken_world_def)

section \<open>The run as a whole\<close>

text \<open>
  Claim C4 as first stated (every run exits with status 0) fails on the machine where
  importing \<open>click\<close> raises \<open>SyntaxError\<close>: the exception leaves \<open>main\<close>.
\<close>

theorem main_aborts_on_broken_import:
  "snd (main broken_world) = Some SyntaxError \<and> exit_status (main broken_world) = 1"
  by (simp add: main_broken_world exit_status_def)

lemma returns_check_python_module:
  "returns (check_python_module w m) \<longleftrightarrow>
     (\<forall>e. import_raises w m = Some e \<longrightarrow> isinstance_ImportError e)"
  by (auto simp: returns_def check_python_module_def dunder_import_def split: option.splits)

lemma returns_check_command:
  "returns (check_command w cmd name) \<longleftrightarrow>
     (\<forall>e. spawn w (if cmd = ''checkov'' then [cmd, ''-v''] else [cmd, ''--version'']) = Inl e
          \<longrightarrow> e = FileNotFoundError \<or> e = TimeoutExpired)"
  unfolding returns_def check_command_unfold
  by (auto split: sum.splits option.splits)

lemma probes_answer_world:
  "probes_answer w \<longleftrightarrow>
     (\<forall>m \<in> {''click'', ''rich'', ''reportlab'', ''openai''}.
        \<forall>e. import_raises w m = Some e \<longrightarrow> isinstance_ImportError e) \<and>
     (\<forall>argv \<in> {[''trivy'', ''--version''], [''checkov'', ''-v''], [''gitleaks'', ''--version'']}.
        \<forall>e. spawn w argv = Inl e \<longrightarrow> e = FileNotFoundError \<or> e = TimeoutExpired)"
  unfolding probes_answer_def required_packages_def optional_packages_def external_tools_def
  by (simp add: returns_check_python_module returns_check_command conj_ac)

text \<open>
  Claim C4, as amended. Whenever every probe call returns, that is whenever each of the
  four imports either succeeds or raises \<open>ImportError\<close> (or \<open>ModuleNotFoundError\<close>)
  and each of the three tool invocations either starts or raises \<open>FileNotFoundError\<close>
  (or \<open>TimeoutExpired\<close>), the run goes top to bottom, down to the closing usage lines,
  no exception leaves \<open>main\<close>, and the exit status is 0, however many checks answer
  false.
\<close>

theorem main_exit_status:
  "(probes_answer w \<longrightarrow>
      snd (main w) = None \<and> exit_status (main w) = 0 \<and>
      (\<exists>pre. fst (main w) =
         pre @ [Print (CHR 0x0A # replicate 60 CHR ''=''),
                Print ''To run a scan:'',
                Print ''  python -m src.cli.main scan /path/to/project'',
                Print (replicate 60 CHR ''='')])) \<and>
   (probes_answer w \<longleftrightarrow>
      (\<forall>m \<in> {''click'', ''rich'', ''reportlab'', ''openai''}.
         \<forall>e. import_raises w m = Some e \<longrightarrow> isinstance_ImportError e) \<and>
      (\<forall>argv \<in> {[''trivy'', ''--version''], [''checkov'', ''-v''],
                 [''gitleaks'', ''--version'']}.
         \<forall>e. spawn w argv = Inl e \<longrightarrow> e = FileNotFoundError \<or> e = TimeoutExpired))"
proof -
  have finished: "snd (main w) = None \<and> exit_status (main w) = 0 \<and>
      (\<exists>pre. fst (main w) =
         pre @ [Print (CHR 0x0A # replicate 60 CHR ''=''),
                Print ''To run a scan:'',
                Print ''  python -m src.cli.main scan /path/to/project'',
                Print (replicate 60 CHR ''='')])" if "probes_answer w"
  proof -
    from main_completes [OF that] obtain req opt tls where
      m: "main w = (version_block w @ req @ opt @ tls @
                     summary_block (tools_detected w) @ environment_block w, None)"
      by blast
    obtain env where env: "environment_block w =
        env @ [Print (CHR 0x0A # replicate 60 CHR ''=''),
               Print ''To run a scan:'',
               Print ''  python -m src.cli.main scan /path/to/project'',
               Print (replicate 60 CHR ''='')]"
      unfolding environment_block_def by (metis append.assoc)
    have "fst (main w) =
        (version_block w @ req @ opt @ tls @ summary_block (tools_detected w) @ env) @
        [Print (CHR 0x0A # replicate 60 CHR ''=''),
         Print ''To run a scan:'',
         Print ''  python -m src.cli.main scan /path/to/project'',
         Print (replicate 60 CHR ''='')]"
      unfolding m env by simp
    then show ?thesis by (auto simp: m exit_status_def)
  qed
  from finished probes_answer_world [of w] show ?thesis
    by (cases "probes_answer w") simp_all
qed

theorem main_exit_status_witness:
  "probes_answer bare_world \<and> tools_detected bare_world = 0 \<and>
   snd (main bare_world) = None \<and> exit_status (main bare_world) = 0 \<and>
   probes_answer ready_world \<and>
   snd (main ready_world) = None \<and> exit_status (main ready_world) = 0"
  using main_exit_status [of bare_world] main_exit_status [of ready_world]
    bare_world_probes ready_world_probes bare_world_tools
  by simp

section \<open>The version verdict\<close>

lemma printed_version_block:
  "printed (version_block w) =
     [replicate 60 CHR ''='', ''PRC Setup Verification'', replicate 60 CHR ''='',
      CHR 0x0A # ''Python Version: '' @ sys_version w,
      (if major (sys_version_info w) < 3 \<or>
          (major (sys_version_info w) = 3 \<and> minor (sys_version_info w) < 9)
       then ''  [WARNING] Python 3.9+ is recommended''
       else ''  [OK] Python version is compatible'')]"
  by (simp add: version_block_def version_info_lt_def)

text \<open>
  Claim C7. In every run, aborted or not, the report starts with the banner and the
  interpreter version, and the next line is the verdict: when the version is below 3.9
  (major below 3, or major 3 and minor below 9) it is the \<open>[WARNING]\<close> line, otherwise it
  is the line \<open>[OK] Python version is compatible\<close>.
\<close>

theorem version_verdict:
  "(major (sys_version_info w) < 3 \<or>
      (major (sys_version_info w) = 3 \<and> minor (sys_version_info w) < 9) \<longrightarrow>
      (\<exists>rest. printed (fst (main w)) =
         [replicate 60 CHR ''='', ''PRC Setup Verification'', replicate 60 CHR ''='',
          CHR 0x0A # ''Python Version: '' @ sys_version w,
          ''  [WARNING] Python 3.9+ is recommended''] @ rest) \<and>
      report_contains (printed (fst (main w))) ''[WARNING]'') \<and>
   (\<not> (major (sys_version_info w) < 3 \<or>
      (major (sys_version_info w) = 3 \<and> minor (sys_version_info w) < 9)) \<longrightarrow>
      (\<exists>rest. printed (fst (main w)) =
         [replicate 60 CHR ''='', ''PRC Setup Verification'', replicate 60 CHR ''='',
          CHR 0x0A # ''Python Version: '' @ sys_version w,
          ''  [OK] Python version is compatible''] @ rest) \<and>
      report_contains (printed (fst (main w))) ''[OK] Python version is compatible'')"
proof -
  obtain rest where r: "fst (main w) = version_block w @ rest"
    using main_head by blast
  have p: "printed (fst (main w)) = printed (version_block w) @ printed rest"
    unfolding r by (rule printed_append)
  have warn: "sublist ''[WARNING]'' ''  [WARNING] Python 3.9+ is recommended''"
    by (simp add: sublist_code)
  have ok: "sublist ''[OK] Python version is compatible'' ''  [OK] Python version is compatible''"
    by (simp add: sublist_code)
  show ?thesis
    unfolding p printed_version_block using warn ok
    by (auto simp: report_contains_append)
qed

theorem version_verdict_witness:
  "major (sys_version_info bare_world) = 3 \<and> minor (sys_version_info bare_world) = 8 \<and>
   report_contains (printed (fst (main bare_world))) ''[WARNING]'' \<and>
   major (sys_version_info ready_world) = 3 \<and> minor (sys_version_info ready_world) = 11 \<and>
   report_contains (printed (fst (main ready_world))) ''[OK] Python version is compatible''"
proof -
  have b: "major (sys_version_info bare_world) = 3" "minor (sys_version_info bare_world) = 8"
    by (simp_all add: bare_world_def)
  have r: "major (sys_version_info ready_world) = 3" "minor (sys_version_info ready_world) = 11"
    by (simp_all add: ready_world_def)
  from version_verdict [of bare_world, THEN conjunct1] b
  have 1: "report_contains (printed (fst (main bare_world))) ''[WARNING]''" by simp
  from version_verdict [of ready_world, THEN conjunct2] r
  have 2: "report_contains (printed (fst (main ready_world))) ''[OK] Python version is compatible''"
    by simp
  from b r 1 2 show ?thesis by simp
qed

section \<open>The summary\<close>

lemma printed_summary_block:
  "printed (summary_block n) =
     [CHR 0x0A # ''--- Built-in Scanner ---'',
      ''  [ALWAYS AVAILABLE] Built-in Secret Scanner'',
      ''                     Detects hardcoded passwords, API keys, K8s secrets'',
      CHR 0x0A # replicate 60 CHR ''=''] @
     [''Summary'', replicate 60 CHR ''='',
      (if n = 0 then CHR 0x0A # ''[INFO] No external tools installed.''
       else CHR 0x0A # ''[OK] '' @ str_int n @
            '' external tool(s) available + built-in scanner'')] @
     (if n = 0 then
        [''       PRC will use the built-in secret scanner only.'',
         ''       For comprehensive scanning, install Trivy, Checkov, or Gitleaks.'']
      else [])"
  by (simp add: summary_block_def)

lemma printed_main_completes:
  assumes "probes_answer w"
  shows "\<exists>before. printed (fst (main w)) =
           before @ printed (summary_block (tools_detected w)) @ printed (environment_block w)"
proof -
  from main_completes [OF assms] obtain req opt tls where
    m: "main w = (version_block w @ req @ opt @ tls @
                   summary_block (tools_detected w) @ environment_block w, None)"
    by blast
  have "printed (fst (main w)) =
      printed (version_block w @ req @ opt @ tls) @
      printed (summary_block (tools_detected w)) @ printed (environment_block w)"
    unfolding m by (simp add: printed_append)
  then show ?thesis by blast
qed

lemma bar_lacks:
  assumes "CHR ''='' \<notin> set s" and "s \<noteq> []"
  shows "\<not> sublist s (replicate n CHR ''='')"
proof
  assume "sublist s (replicate n CHR ''='')"
  then have "set s \<subseteq> set (replicate n CHR ''='')" by (rule set_mono_sublist)
  then have "set s \<subseteq> {CHR ''=''}" by auto
  moreover from assms(2) obtain x where "x \<in> set s" by (cases s) auto
  ultimately show False using assms(1) by auto
qed

lemma tools_detected_broken_world: "tools_detected broken_world = 0"
  by (simp add: tools_detected_def external_tools_def check_command_unfold spawn_def broken_world_def)

text \<open>
  Claim C5 as first stated fails on the machine where importing \<open>click\<close> raises
  \<open>SyntaxError\<close>: no external tool is detected there, and the run ends before any
  summary is printed.
\<close>

theorem no_summary_when_aborted:
  "tools_detected broken_world = 0 \<and>
   \<not> report_contains (printed (fst (main broken_world))) ''No external tools installed.''"
  unfolding printed_broken_world tools_detected_broken_world
  by (simp add: sublist_code bar_lacks)

text \<open>
  Claim C5, as amended. In every run in which every probe call returns, the line that
  follows the \<open>Summary\<close> header contains \<open>No external tools installed.\<close> when no
  external tool is detected, and the count \<open>N\<close> formatted as
  \<open>N external tool(s) available\<close> when \<open>N > 0\<close> tools are detected.
\<close>

theorem summary_reports_tool_count:
  assumes "probes_answer w"
  shows "(tools_detected w = 0 \<longrightarrow>
            (\<exists>before after l.
               printed (fst (main w)) =
                 before @ [''Summary'', replicate 60 CHR ''='', l] @ after \<and>
               sublist ''No external tools installed.'' l)) \<and>
         (0 < tools_detected w \<longrightarrow>
            (\<exists>before after l.
               printed (fst (main w)) =
                 before @ [''Summary'', replicate 60 CHR ''='', l] @ after \<and>
               sublist (str_int (tools_detected w) @ '' external tool(s) available'') l))"
proof -
  from printed_main_completes [OF assms] obtain before where
    p: "printed (fst (main w)) =
          before @ printed (summary_block (tools_detected w)) @ printed (environment_block w)"
    by blast
  define n where "n = tools_detected w"
  define l where "l = (if n = 0 then CHR 0x0A # ''[INFO] No external tools installed.''
       else CHR 0x0A # ''[OK] '' @ str_int n @
            '' external tool(s) available + built-in scanner'')"
  have "\<exists>b a. printed (fst (main w)) = b @ [''Summary'', replicate 60 CHR ''='', l] @ a"
    unfolding p printed_summary_block l_def n_def
    by (metis append.assoc)
  then obtain b a where
    d: "printed (fst (main w)) = b @ [''Summary'', replicate 60 CHR ''='', l] @ a"
    by blast
  have zero: "sublist ''No external tools installed.'' l" if "n = 0"
  proof -
    have "l = (CHR 0x0A # ''[INFO] '') @ ''No external tools installed.'' @ []"
      using that by (simp add: l_def)
    then show ?thesis by (metis sublist_appendI)
  qed
  have pos: "sublist (str_int n @ '' external tool(s) available'') l" if "0 < n"
  proof -
    have "l = (CHR 0x0A # ''[OK] '') @ (str_int n @ '' external tool(s) available'') @
              '' + built-in scanner''"
      using that by (simp add: l_def)
    then show ?thesis by (metis sublist_appendI)
  qed
  from d zero pos show ?thesis unfolding n_def by blast
qed

theorem summary_reports_tool_count_witness:
  "probes_answer bare_world \<and> tools_detected bare_world = 0 \<and>
   (\<exists>before after l.
      printed (fst (main bare_world)) =
        before @ [''Summary'', replicate 60 CHR ''='', l] @ after \<and>
      sublist ''No external tools installed.'' l) \<and>
   probes_answer ready_world \<and> tools_detected ready_world = 2 \<and>
   (\<exists>before after l.
      printed (fst (main ready_world)) =
        before @ [''Summary'', replicate 60 CHR ''='', l] @ after \<and>
      sublist ''2 external tool(s) available'' l)"
proof -
  note b = summary_reports_tool_count [OF bare_world_probes, THEN conjunct1, rule_format,
    OF bare_world_tools]
  have "0 < tools_detected ready_world" by (simp add: ready_world_tools)
  note r = summary_reports_tool_count [OF ready_world_probes, THEN conjunct2, rule_format,
    OF this]
  have s: "str_int (tools_detected ready_world) @ '' external tool(s) available'' =
      ''2 external tool(s) available''"
    by (simp add: ready_world_tools str_int_2)
  from b r [unfolded s] bare_world_probes bare_world_tools ready_world_probes ready_world_tools
  show ?thesis by blast
qed

section \<open>The tool counter and the built-in scanner line\<close>

text \<open>
  Claim C10 as first stated (the built-in scanner line is printed unconditionally) fails
  on the machine where importing \<open>click\<close> raises \<open>SyntaxError\<close>: the run ends before
  the tool loop and the line is never printed.
\<close>

theorem no_builtin_line_when_aborted:
  "\<not> report_contains (printed (fst (main broken_world)))
       ''[ALWAYS AVAILABLE] Built-in Secret Scanner''"
  unfolding printed_broken_world
  by (simp add: sublist_code bar_lacks)

text \<open>
  Claim C10, as amended. In every run in which every probe call returns, the counter
  \<open>tools_available\<close> that the tool loop yields equals the number of entries of the
  three-element tool table (trivy, checkov, gitleaks) for which \<open>check_command\<close> returns
  true, so it lies between 0 and 3; and the built-in scanner line is printed whatever the
  count is.
\<close>

theorem tools_counter:
  assumes "probes_answer w"
  shows "snd (tools_section w) = Inr (tools_detected w) \<and>
         map fst external_tools = [''trivy'', ''checkov'', ''gitleaks''] \<and>
         0 \<le> tools_detected w \<and> tools_detected w \<le> 3 \<and>
         Print ''  [ALWAYS AVAILABLE] Built-in Secret Scanner'' \<in> set (fst (main w)) \<and>
         report_contains (printed (fst (main w)))
           ''[ALWAYS AVAILABLE] Built-in Secret Scanner''"
proof -
  from main_completes [OF assms] obtain req opt tls where
    t: "tools_section w = (tls, Inr (tools_detected w))" and
    m: "main w = (version_block w @ req @ opt @ tls @
                   summary_block (tools_detected w) @ environment_block w, None)"
    by blast
  have tab: "map fst external_tools = [''trivy'', ''checkov'', ''gitleaks'']"
    by (simp add: external_tools_def)
  have "length (filter (\<lambda>(cmd, name, description, install_info).
          snd (check_command w cmd name) = Inr True) external_tools) \<le> length external_tools"
    by (rule length_filter_le)
  then have bound: "0 \<le> tools_detected w \<and> tools_detected w \<le> 3"
    by (simp add: tools_detected_def external_tools_def)
  have line: "Print ''  [ALWAYS AVAILABLE] Built-in Secret Scanner'' \<in> set (fst (main w))"
    unfolding m by (simp add: summary_block_def)
  have "sublist ''[ALWAYS AVAILABLE] Built-in Secret Scanner''
          ''  [ALWAYS AVAILABLE] Built-in Secret Scanner''"
    by (simp add: sublist_code)
  with line have "report_contains (printed (fst (main w)))
      ''[ALWAYS AVAILABLE] Built-in Secret Scanner''"
    by (metis report_contains_line in_printed)
  with t tab bound line show ?thesis by simp
qed

theorem tools_counter_witness:
  "probes_answer ready_world \<and> snd (tools_section ready_world) = Inr 2 \<and>
   report_contains (printed (fst (main ready_world)))
     ''[ALWAYS AVAILABLE] Built-in Secret Scanner'' \<and>
   probes_answer bare_world \<and> snd (tools_section bare_world) = Inr 0 \<and>
   report_contains (printed (fst (main bare_world)))
     ''[ALWAYS AVAILABLE] Built-in Secret Scanner''"
  using tools_counter [OF ready_world_probes] tools_counter [OF bare_world_probes]
    ready_world_probes bare_world_probes
  by (simp add: ready_world_tools bare_world_tools)

section \<open>The environment variable\<close>

lemma environment_block_unset:
  "\<not> truthy (environ w ''OPENAI_API_KEY'') \<Longrightarrow>
   environment_block w =
     [Print (CHR 0x0A # ''--- Environment Variables ---''),
      Print ''  [NOT SET] OPENAI_API_KEY - AI insights will use fallback mode'',
      Print ''            Set with: export OPENAI_API_KEY=your-key'',
      Print (CHR 0x0A # replicate 60 CHR ''=''),
      Print ''To run a scan:'',
      Print ''  python -m src.cli.main scan /path/to/project'',
      Print (replicate 60 CHR ''='')]"
  by (simp add: environment_block_def getenv_def)

lemma environment_block_set:
  "truthy (environ w ''OPENAI_API_KEY'') \<Longrightarrow>
   environment_block w =
     [Print (CHR 0x0A # ''--- Environment Variables ---''),
      Print ''  [OK] OPENAI_API_KEY is set (AI insights enabled)'',
      Print (CHR 0x0A # replicate 60 CHR ''=''),
      Print ''To run a scan:'',
      Print ''  python -m src.cli.main scan /path/to/project'',
      Print (replicate 60 CHR ''='')]"
  by (simp add: environment_block_def getenv_def)

lemma main_ends_with_environment_block:
  assumes "probes_answer w"
  shows "\<exists>before. fst (main w) = before @ environment_block w"
proof -
  from main_completes [OF assms] obtain req opt tls where
    m: "main w = (version_block w @ req @ opt @ tls @
                   summary_block (tools_detected w) @ environment_block w, None)"
    by blast
  have "fst (main w) =
      (version_block w @ req @ opt @ tls @ summary_block (tools_detected w)) @
      environment_block w"
    unfolding m by simp
  then show ?thesis by blast
qed

text \<open>
  Claim C6 as first stated fails on the machine where importing \<open>click\<close> raises
  \<open>SyntaxError\<close>: the variable is unset there, and the run ends before the environment
  section is printed.
\<close>

theorem no_api_key_line_when_aborted:
  "environ broken_world ''OPENAI_API_KEY'' = None \<and>
   \<not> report_contains (printed (fst (main broken_world)))
       ''AI insights will use fallback mode''"
proof -
  have "environ broken_world ''OPENAI_API_KEY'' = None"
    by (simp add: broken_world_def)
  moreover have "\<not> report_contains (printed (fst (main broken_world)))
       ''AI insights will use fallback mode''"
    unfolding printed_broken_world by (simp add: sublist_code bar_lacks)
  ultimately show ?thesis by simp
qed

text \<open>
  Claim C6, as amended. In every run in which every probe call returns, the report
  contains \<open>AI insights will use fallback mode\<close> when \<open>OPENAI_API_KEY\<close> is unset, and
  \<open>AI insights enabled\<close> when it is set to a non-empty value.
\<close>

theorem api_key_lines:
  assumes "probes_answer w"
  shows "(environ w ''OPENAI_API_KEY'' = None \<longrightarrow>
            report_contains (printed (fst (main w))) ''AI insights will use fallback mode'') \<and>
         (\<forall>v. environ w ''OPENAI_API_KEY'' = Some v \<and> v \<noteq> [] \<longrightarrow>
            report_contains (printed (fst (main w))) ''AI insights enabled'')"
proof -
  from main_ends_with_environment_block [OF assms] obtain before where
    m: "fst (main w) = before @ environment_block w"
    by blast
  have fallback: "sublist ''AI insights will use fallback mode''
      ''  [NOT SET] OPENAI_API_KEY - AI insights will use fallback mode''"
    by (simp add: sublist_code)
  have enabled: "sublist ''AI insights enabled''
      ''  [OK] OPENAI_API_KEY is set (AI insights enabled)''"
    by (simp add: sublist_code)
  have 1: "report_contains (printed (fst (main w))) ''AI insights will use fallback mode''"
    if "environ w ''OPENAI_API_KEY'' = None"
  proof -
    from that have "\<not> truthy (environ w ''OPENAI_API_KEY'')" by simp
    then have "Print ''  [NOT SET] OPENAI_API_KEY - AI insights will use fallback mode''
        \<in> set (fst (main w))"
      unfolding m by (simp add: environment_block_unset)
    with fallback show ?thesis by (metis report_contains_line in_printed)
  qed
  have 2: "report_contains (printed (fst (main w))) ''AI insights enabled''"
    if "environ w ''OPENAI_API_KEY'' = Some v" and "v \<noteq> []" for v
  proof -
    from that have "truthy (environ w ''OPENAI_API_KEY'')" by simp
    then have "Print ''  [OK] OPENAI_API_KEY is set (AI insights enabled)''
        \<in> set (fst (main w))"
      unfolding m by (simp add: environment_block_set)
    with enabled show ?thesis by (metis report_contains_line in_printed)
  qed
  from 1 2 show ?thesis by blast
qed

theorem api_key_lines_witness:
  "probes_answer bare_world \<and> environ bare_world ''OPENAI_API_KEY'' = None \<and>
   report_contains (printed (fst (main bare_world))) ''AI insights will use fallback mode'' \<and>
   probes_answer ready_world \<and> environ ready_world ''OPENAI_API_KEY'' = Some ''sk-test'' \<and>
   report_contains (printed (fst (main ready_world))) ''AI insights enabled''"
proof -
  have b: "environ bare_world ''OPENAI_API_KEY'' = None"
    by (simp add: bare_world_def)
  have r: "environ ready_world ''OPENAI_API_KEY'' = Some ''sk-test''"
    by (simp add: ready_world_def)
  from api_key_lines [OF bare_world_probes, THEN conjunct1] b
  have 1: "report_contains (printed (fst (main bare_world)))
      ''AI insights will use fallback mode''"
    by simp
  from api_key_lines [OF ready_world_probes, THEN conjunct2, rule_format, of "''sk-test''"] r
  have 2: "report_contains (printed (fst (main ready_world))) ''AI insights enabled''"
    by simp
  from 1 2 b r bare_world_probes ready_world_probes show ?thesis by simp
qed

section \<open>An empty API key\<close>









end
